theory Spec2Isabelle
  imports Main
begin

section \<open>Rendered element trees\<close>

text \<open>
  The components of the gallery are React function components. A component that is an
  expression-bodied arrow function (\<^verbatim>\<open>ColumnHeader\<close>, \<^verbatim>\<open>TTSSection\<close>,
  \<^verbatim>\<open>ModelSection\<close>) is embedded as the HOL function from its props to the element tree
  it returns. The components imported from \<^verbatim>\<open>@/components/ui\<close> and
  \<^verbatim>\<open>lucide-react\<close> are not part of the sources; they stay element nodes named by
  their tag. \<^verbatim>\<open>AudioPlayer\<close> owns state, so an occurrence of it stays a leaf carrying
  its props, and its behaviour is the state machine of the second part; what it returns
  when it is rendered is in the part on rendering with state.
\<close>

datatype aval = StrV string | NumV nat | FunV string

datatype elem =
    Text string
  | Num nat
  | Elem string "(string \<times> aval) list" "elem list"
  | AudioPlayerEl string "string option"

text \<open>Children of a node, in document order.\<close>

fun kids :: "elem \<Rightarrow> elem list" where
  "kids (Elem t ps cs) = cs"
| "kids e = []"

text \<open>All \<^verbatim>\<open>AudioPlayer\<close> occurrences below a node, in document order, as (src, label).\<close>

fun controls :: "elem \<Rightarrow> (string \<times> string option) list" where
  "controls (Text s) = []"
| "controls (Num n) = []"
| "controls (Elem t ps cs) = concat (map controls cs)"
| "controls (AudioPlayerEl s l) = [(s, l)]"

text \<open>All numbers displayed below a node, in document order.\<close>

fun numbers :: "elem \<Rightarrow> nat list" where
  "numbers (Text s) = []"
| "numbers (Num n) = [n]"
| "numbers (Elem t ps cs) = concat (map numbers cs)"
| "numbers (AudioPlayerEl s l) = []"

text \<open>A number child is displayed in decimal.\<close>

definition digit :: "nat \<Rightarrow> char" where
  "digit d = ''0123456789'' ! d"

fun show_nat :: "nat \<Rightarrow> string" where
  "show_nat n = (if n < 10 then [digit n] else show_nat (n div 10) @ [digit (n mod 10)])"

text \<open>The text displayed below a node (an \<^verbatim>\<open>AudioPlayer\<close> leaf contributes none here).\<close>

fun textContent :: "elem \<Rightarrow> string" where
  "textContent (Text s) = s"
| "textContent (Num n) = show_nat n"
| "textContent (Elem t ps cs) = concat (map textContent cs)"
| "textContent (AudioPlayerEl s l) = []"

text \<open>All nodes with a given tag below (and including) a node, in document order.\<close>

fun tagged :: "string \<Rightarrow> elem \<Rightarrow> elem list" where
  "tagged t (Text s) = []"
| "tagged t (Num n) = []"
| "tagged t (Elem t' ps cs) =
     (if t' = t then [Elem t' ps cs] else []) @ concat (map (tagged t) cs)"
| "tagged t (AudioPlayerEl s l) = []"

text \<open>The rendered rows of the table bodies below a node, in document order.\<close>

definition body_rows :: "elem \<Rightarrow> elem list" where
  "body_rows e = concat (map kids (tagged ''TableBody'' e))"

text \<open>A node with its \<^verbatim>\<open>key\<close> props erased: keys identify list positions and are not rendered.\<close>

fun drop_keys :: "elem \<Rightarrow> elem" where
  "drop_keys (Text s) = Text s"
| "drop_keys (Num n) = Num n"
| "drop_keys (Elem t ps cs) = Elem t (filter (\<lambda>p. fst p \<noteq> ''key'') ps) (map drop_keys cs)"
| "drop_keys (AudioPlayerEl s l) = AudioPlayerEl s l"

section \<open>Data model\<close>

text \<open>\<^verbatim>\<open>interface TTSData\<close>: six string fields, none optional.\<close>

record TTSData =
  speakerId :: string
  originalText :: string
  originalSpeech :: string
  generatedSpeech :: string
  generateText :: string
  generatedSpeechNew :: string

text \<open>
  JavaScript's \<^verbatim>\<open>s && e\<close> for a string \<^verbatim>\<open>s\<close>: the empty string is falsy and is
  itself the value of the expression; any other string gives \<^verbatim>\<open>e\<close>.
\<close>

definition truthy :: "string \<Rightarrow> bool" where
  "truthy s = (s \<noteq> [])"

definition js_and :: "string \<Rightarrow> elem \<Rightarrow> elem" where
  "js_and s e = (if truthy s then e else Text s)"

section \<open>Renderers\<close>

text \<open>\<^verbatim>\<open>const columnDescriptions\<close>.\<close>

definition columnDescriptions_speaker :: string where
  "columnDescriptions_speaker = ''Unique identifier for each speaker in the dataset''"

definition columnDescriptions_originalText :: string where
  "columnDescriptions_originalText = ''Transcription of the original recorded speech''"

definition columnDescriptions_originalSpeech :: string where
  "columnDescriptions_originalSpeech = ''Original audio recording from the speaker''"

definition columnDescriptions_generatedSpeech :: string where
  "columnDescriptions_generatedSpeech =
     ''Speech generated using the original text, with the original speech as voice reference input''"

definition columnDescriptions_generateText :: string where
  "columnDescriptions_generateText = ''New text input for speech synthesis''"

definition columnDescriptions_generatedSpeechNew :: string where
  "columnDescriptions_generatedSpeechNew =
     ''Speech generated using the new text, with the original speech as voice reference input''"

text \<open>\<^verbatim>\<open>ColumnHeader\<close>.\<close>

definition ColumnHeader :: "string \<Rightarrow> string \<Rightarrow> elem" where
  "ColumnHeader title description =
     Elem ''Tooltip'' [(''delayDuration'', NumV 0)]
       [Elem ''TooltipTrigger'' [(''className'', StrV ''flex items-center gap-1 cursor-help'')]
          [Text title,
           Elem ''Info'' [(''className'', StrV ''w-4 h-4 text-gray-400'')] []],
        Elem ''TooltipContent''
          [(''side'', StrV ''top''),
           (''className'', StrV ''bg-white p-2 shadow-lg rounded-lg border text-black'')]
          [Elem ''p'' [(''className'', StrV ''max-w-xs text-sm'')] [Text description]]]"

text \<open>
  The \<^verbatim>\<open>TableHeader\<close> of \<^verbatim>\<open>TTSSection\<close>; its text is the same in both versions of
  the component.
\<close>

definition TTSSection_head :: elem where
  "TTSSection_head =
     Elem ''TableHeader'' []
       [Elem ''TableRow'' [(''className'', StrV ''bg-gray-50'')]
          [Elem ''TableHead'' [(''className'', StrV ''font-semibold text-left'')]
             [ColumnHeader ''Speaker'' columnDescriptions_speaker],
           Elem ''TableHead'' [(''className'', StrV ''font-semibold text-left'')]
             [ColumnHeader ''Original Text'' columnDescriptions_originalText],
           Elem ''TableHead'' [(''className'', StrV ''font-semibold text-left'')]
             [ColumnHeader ''Original Speech'' columnDescriptions_originalSpeech],
           Elem ''TableHead'' [(''className'', StrV ''font-semibold text-left'')]
             [ColumnHeader ''Generated Speech'' columnDescriptions_generatedSpeech],
           Elem ''TableHead'' [(''className'', StrV ''font-semibold text-left'')]
             [ColumnHeader ''Generate Text'' columnDescriptions_generateText],
           Elem ''TableHead'' [(''className'', StrV ''font-semibold text-left'')]
             [ColumnHeader ''Generated Speech (New)'' columnDescriptions_generatedSpeechNew]]]"

text \<open>
  The callback of \<^verbatim>\<open>data.map((row, idx) => ...)\<close> in \<^verbatim>\<open>TTSSection\<close>, in the version
  of the component that guards the fourth cell with \<^verbatim>\<open>row.generatedSpeech && (...)\<close>
  (the unnamed source file, lines 159 to 192).
\<close>

definition TTSSection_row :: "nat \<Rightarrow> TTSData \<Rightarrow> elem" where
  "TTSSection_row idx row =
     Elem ''TableRow''
       [(''key'', NumV idx),
        (''className'', StrV ''hover:bg-gray-50 transition-colors duration-200'')]
       [Elem ''TableCell'' [(''className'', StrV ''w-32 font-medium text-left'')]
          [Text (speakerId row)],
        Elem ''TableCell'' [(''className'', StrV ''max-w-64'')]
          [Elem ''div'' [(''className'', StrV ''text-sm text-gray-600 text-left'')]
             [Text (originalText row)]],
        Elem ''TableCell'' []
          [AudioPlayerEl (originalSpeech row) (Some ''Original'')],
        Elem ''TableCell'' []
          [js_and (generatedSpeech row)
             (AudioPlayerEl (generatedSpeech row) (Some ''Generated''))],
        Elem ''TableCell'' [(''className'', StrV ''max-w-64'')]
          [Elem ''div'' [(''className'', StrV ''text-sm text-gray-600 text-left'')]
             [Text (generateText row)]],
        Elem ''TableCell'' []
          [AudioPlayerEl (generatedSpeechNew row) (Some ''New Generated'')]]"

text \<open>
  The same callback in \<^verbatim>\<open>src/App.tsx\<close> (lines 157 to 187): the fourth cell holds the
  \<^verbatim>\<open>AudioPlayer\<close> with no guard.
\<close>

definition App_TTSSection_row :: "nat \<Rightarrow> TTSData \<Rightarrow> elem" where
  "App_TTSSection_row idx row =
     Elem ''TableRow''
       [(''key'', NumV idx),
        (''className'', StrV ''hover:bg-gray-50 transition-colors duration-200'')]
       [Elem ''TableCell'' [(''className'', StrV ''w-32 font-medium text-left'')]
          [Text (speakerId row)],
        Elem ''TableCell'' [(''className'', StrV ''max-w-64'')]
          [Elem ''div'' [(''className'', StrV ''text-sm text-gray-600 text-left'')]
             [Text (originalText row)]],
        Elem ''TableCell'' []
          [AudioPlayerEl (originalSpeech row) (Some ''Original'')],
        Elem ''TableCell'' []
          [AudioPlayerEl (generatedSpeech row) (Some ''Generated'')],
        Elem ''TableCell'' [(''className'', StrV ''max-w-64'')]
          [Elem ''div'' [(''className'', StrV ''text-sm text-gray-600 text-left'')]
             [Text (generateText row)]],
        Elem ''TableCell'' []
          [AudioPlayerEl (generatedSpeechNew row) (Some ''New Generated'')]]"

text \<open>
  \<^verbatim>\<open>TTSSection\<close>, with the row callback as a parameter: the two versions of the
  component differ in the callback only. \<^verbatim>\<open>data.map\<close> passes each row with its index.
\<close>

definition TTSSection_with :: "(nat \<Rightarrow> TTSData \<Rightarrow> elem) \<Rightarrow> string \<Rightarrow> TTSData list \<Rightarrow> elem" where
  "TTSSection_with render_row title data =
     Elem ''div'' [(''className'', StrV ''space-y-4'')]
       [Elem ''div'' [(''className'', StrV ''flex items-center justify-center gap-2'')]
          [Elem ''h3'' [(''className'', StrV ''text-lg font-semibold text-gray-800'')]
             [Text title],
           Elem ''div'' [(''className'', StrV ''text-sm text-gray-500'')]
             [Text ''('', Num (length data), Text '' samples)'']],
        Elem ''div''
          [(''className'', StrV ''overflow-x-auto rounded-lg border border-gray-200 shadow-sm'')]
          [Elem ''Table'' []
             [TTSSection_head,
              Elem ''TableBody'' []
                (map (\<lambda>(idx, row). render_row idx row) (enumerate 0 data))]]]"

definition TTSSection :: "string \<Rightarrow> TTSData list \<Rightarrow> elem" where
  "TTSSection = TTSSection_with TTSSection_row"

definition App_TTSSection :: "string \<Rightarrow> TTSData list \<Rightarrow> elem" where
  "App_TTSSection = TTSSection_with App_TTSSection_row"

text \<open>\<^verbatim>\<open>ModelSection\<close> (the same text in both files).\<close>

definition ModelSection :: "string \<Rightarrow> TTSData list \<Rightarrow> TTSData list \<Rightarrow> elem" where
  "ModelSection title trainData testData =
     Elem ''Card'' [(''className'', StrV ''mb-8 border-0 w-full shadow-lg mx-auto max-w-7xl'')]
       [Elem ''CardHeader''
          [(''className'',
            StrV ''bg-gradient-to-r from-blue-50 to-blue-100 rounded-t-lg text-center'')]
          [Elem ''CardTitle'' [(''className'', StrV ''text-xl text-blue-800'')] [Text title]],
        Elem ''CardContent'' [(''className'', StrV ''space-y-8 p-6'')]
          [TTSSection ''Train (seen data)'' trainData,
           TTSSection ''Test (unseen data)'' testData]]"

section \<open>Audio controls\<close>

text \<open>
  The browser's \<^verbatim>\<open>HTMLAudioElement\<close>, as far as \<^verbatim>\<open>AudioPlayer\<close> touches it: the
  element is built from a locator, receives \<^verbatim>\<open>play()\<close> and \<^verbatim>\<open>pause()\<close> requests and
  has an \<^verbatim>\<open>onended\<close> slot. Whether the locator resolves to a resource that loads and
  plays is the environment's business (\<open>playable\<close>). \<^verbatim>\<open>play()\<close> does not throw: it
  returns a promise that is rejected when playback cannot start.
\<close>

datatype request = PlayReq | PauseReq

datatype promise = Fulfilled | Rejected

text \<open>
  The only callback the component installs is \<^verbatim>\<open>() => setIsPlaying(false)\<close>; the
  number names the component instance whose state setter the closure holds.
\<close>

datatype handler = SetIsPlayingFalse nat

datatype err = TypeError

record audio =
  src :: string
  playable :: bool
  calls :: "request list"
  onended :: "handler option"

text \<open>
  One mounted \<^verbatim>\<open>AudioPlayer\<close>: its props, the \<^verbatim>\<open>useState\<close> cell and the
  \<^verbatim>\<open>useRef\<close> cell, which holds the address of an audio element.
\<close>

record player =
  props :: "string \<times> string option"
  isPlaying :: bool
  audioRef :: nat

text \<open>The page: the mounted controls in document order, and the store of audio elements.\<close>

record world =
  players :: "player list"
  heap :: "audio list"

definition empty_world :: world where
  "empty_world = \<lparr>players = [], heap = []\<rparr>"

text \<open>
  \<^verbatim>\<open>new Audio(src)\<close>: a fresh element at a fresh address. The set \<open>ok\<close> holds the
  locators that resolve to a resource the browser can load and play.
\<close>

definition new_Audio :: "string set \<Rightarrow> string \<Rightarrow> audio list \<Rightarrow> nat \<times> audio list" where
  "new_Audio ok s h =
     (length h, h @ [\<lparr>src = s, playable = (s \<in> ok), calls = [], onended = None\<rparr>])"

text \<open>Reading \<^verbatim>\<open>audioRef.current\<close>; an address that holds no element gives nothing.\<close>

definition deref :: "audio list \<Rightarrow> nat \<Rightarrow> audio option" where
  "deref h a = (if a < length h then Some (h ! a) else None)"

definition media_play :: "audio \<Rightarrow> promise \<times> audio" where
  "media_play el =
     (if playable el then Fulfilled else Rejected, el\<lparr>calls := calls el @ [PlayReq]\<rparr>)"

definition media_pause :: "audio \<Rightarrow> audio" where
  "media_pause el = el\<lparr>calls := calls el @ [PauseReq]\<rparr>"

text \<open>
  The first render of one \<^verbatim>\<open>AudioPlayer\<close>: \<^verbatim>\<open>useState(false)\<close> and
  \<^verbatim>\<open>useRef(new Audio(src))\<close>. (Later renders evaluate \<^verbatim>\<open>new Audio(src)\<close> again
  and drop the result; those unreferenced elements are left out.)
\<close>

definition AudioPlayer_mount :: "string set \<Rightarrow> string \<times> string option \<Rightarrow> world \<Rightarrow> world" where
  "AudioPlayer_mount ok pr w =
     (let (a, h) = new_Audio ok (fst pr) (heap w)
      in \<lparr>players = players w @ [\<lparr>props = pr, isPlaying = False, audioRef = a\<rparr>],
          heap = h\<rparr>)"

text \<open>Mounting a rendered tree mounts its controls in document order.\<close>

definition mount :: "string set \<Rightarrow> elem \<Rightarrow> world \<Rightarrow> world" where
  "mount ok e w = fold (AudioPlayer_mount ok) (controls e) w"

text \<open>
  \<^verbatim>\<open>handlePlayPause\<close> of the control at position \<open>i\<close>. The closure reads the
  \<^verbatim>\<open>isPlaying\<close> of the latest render; events are dispatched one at a time and each
  state change is rendered before the next event. A call on a missing element would
  throw a \<^verbatim>\<open>TypeError\<close>. The promise returned by \<^verbatim>\<open>play()\<close> is dropped.
\<close>

definition handlePlayPause :: "nat \<Rightarrow> world \<Rightarrow> err + world" where
  "handlePlayPause i w =
     (let p = players w ! i in
      case deref (heap w) (audioRef p) of
        None \<Rightarrow> Inl TypeError
      | Some el \<Rightarrow>
          let el1 = (if isPlaying p then media_pause el else snd (media_play el));
              p' = p\<lparr>isPlaying := \<not> isPlaying p\<rparr>;
              el2 = el1\<lparr>onended := Some (SetIsPlayingFalse i)\<rparr>
          in Inr \<lparr>players = (players w)[i := p'],
                  heap = (heap w)[audioRef p := el2]\<rparr>)"

text \<open>Running an installed callback.\<close>

fun run_handler :: "handler \<Rightarrow> world \<Rightarrow> world" where
  "run_handler (SetIsPlayingFalse i) w =
     w\<lparr>players := (players w)[i := (players w ! i)\<lparr>isPlaying := False\<rparr>]\<rparr>"

text \<open>
  What can happen to the page: the user clicks the button of control \<open>i\<close>; the element
  at address \<open>a\<close> reaches the end of its stream; the element at address \<open>a\<close> reports
  a media error. The component assigns no error callback and attaches nothing to the
  promise of \<^verbatim>\<open>play()\<close>, so a media error runs no code of the page.
\<close>

datatype event = Click nat | Ended nat | MediaError nat

fun dispatch :: "event \<Rightarrow> world \<Rightarrow> err + world" where
  "dispatch (Click i) w = (if i < length (players w) then handlePlayPause i w else Inr w)"
| "dispatch (Ended a) w =
     (case deref (heap w) a of
        None \<Rightarrow> Inr w
      | Some el \<Rightarrow> (case onended el of None \<Rightarrow> Inr w | Some f \<Rightarrow> Inr (run_handler f w)))"
| "dispatch (MediaError a) w = Inr w"

fun run :: "event list \<Rightarrow> world \<Rightarrow> err + world" where
  "run [] w = Inr w"
| "run (e # es) w = (case dispatch e w of Inl x \<Rightarrow> Inl x | Inr w' \<Rightarrow> run es w')"

text \<open>
  The invariant of the page: every control's reference holds an element, no two controls
  share an element, an installed callback belongs to the control that owns the element,
  a control that shows Playing has its callback installed, and every control's element
  was built from the control's \<^verbatim>\<open>src\<close> prop.
\<close>

definition wf :: "world \<Rightarrow> bool" where
  "wf w \<longleftrightarrow>
     (\<forall>i < length (players w). audioRef (players w ! i) < length (heap w)) \<and>
     distinct (map audioRef (players w)) \<and>
     (\<forall>a < length (heap w). \<forall>i. onended (heap w ! a) = Some (SetIsPlayingFalse i) \<longrightarrow>
        i < length (players w) \<and> audioRef (players w ! i) = a) \<and>
     (\<forall>i < length (players w). isPlaying (players w ! i) \<longrightarrow>
        onended (heap w ! audioRef (players w ! i)) = Some (SetIsPlayingFalse i)) \<and>
     (\<forall>i < length (players w).
        src (heap w ! audioRef (players w ! i)) = fst (props (players w ! i)))"

section \<open>An example page\<close>

text \<open>
  One experiment titled E with a single train row (clips a.wav, b.wav and c.wav) and no
  test row. On this page the locator a.wav does not resolve to a playable resource.
\<close>

definition example_row :: TTSData where
  "example_row =
     \<lparr>speakerId = ''s1'', originalText = ''hello'', originalSpeech = ''a.wav'',
      generatedSpeech = ''b.wav'', generateText = ''new text'',
      generatedSpeechNew = ''c.wav''\<rparr>"

definition example_tree :: elem where
  "example_tree = ModelSection ''E'' [example_row] []"

definition example_page :: world where
  "example_page = mount {''b.wav'', ''c.wav''} example_tree empty_world"

text \<open>The example page after a click on its first control, and after a click on its second.\<close>

definition example_broken :: world where
  "example_broken =
     \<lparr>players =
        [\<lparr>props = (''a.wav'', Some ''Original''), isPlaying = True, audioRef = 0\<rparr>,
         \<lparr>props = (''b.wav'', Some ''Generated''), isPlaying = False, audioRef = 1\<rparr>,
         \<lparr>props = (''c.wav'', Some ''New Generated''), isPlaying = False, audioRef = 2\<rparr>],
      heap =
        [\<lparr>src = ''a.wav'', playable = False, calls = [PlayReq],
           onended = Some (SetIsPlayingFalse 0)\<rparr>,
         \<lparr>src = ''b.wav'', playable = True, calls = [], onended = None\<rparr>,
         \<lparr>src = ''c.wav'', playable = True, calls = [], onended = None\<rparr>]\<rparr>"

definition example_playing :: world where
  "example_playing =
     \<lparr>players =
        [\<lparr>props = (''a.wav'', Some ''Original''), isPlaying = False, audioRef = 0\<rparr>,
         \<lparr>props = (''b.wav'', Some ''Generated''), isPlaying = True, audioRef = 1\<rparr>,
         \<lparr>props = (''c.wav'', Some ''New Generated''), isPlaying = False, audioRef = 2\<rparr>],
      heap =
        [\<lparr>src = ''a.wav'', playable = False, calls = [], onended = None\<rparr>,
         \<lparr>src = ''b.wav'', playable = True, calls = [PlayReq],
           onended = Some (SetIsPlayingFalse 1)\<rparr>,
         \<lparr>src = ''c.wav'', playable = True, calls = [], onended = None\<rparr>]\<rparr>"

text \<open>A row whose \<^verbatim>\<open>generatedSpeech\<close> is the empty string.\<close>

definition unset_row :: TTSData where
  "unset_row =
     \<lparr>speakerId = ''s1'', originalText = ''hello'', originalSpeech = ''a.wav'',
      generatedSpeech = [], generateText = ''new text'',
      generatedSpeechNew = ''c.wav''\<rparr>"

section \<open>Rendering with state\<close>

text \<open>
  The body of \<^verbatim>\<open>AudioPlayer\<close> reads and changes state when it is rendered: it reads its
  \<^verbatim>\<open>isPlaying\<close> cell and evaluates \<^verbatim>\<open>new Audio(src)\<close>, the argument of \<^verbatim>\<open>useRef\<close>,
  on every render. A render is therefore a function on a render state: the position of the
  next component instance in document order, the row objects the section was given (held
  by reference), and the page.
\<close>

record rstate =
  cursor :: nat
  rows :: "TTSData list"
  page :: world

text \<open>What \<^verbatim>\<open>AudioPlayer\<close> returns, given its label and the value of \<^verbatim>\<open>isPlaying\<close>.\<close>

definition AudioPlayer_view :: "string option \<Rightarrow> bool \<Rightarrow> elem" where
  "AudioPlayer_view label playing =
     Elem ''div'' [(''className'', StrV ''flex items-center justify-center gap-2 group'')]
       [Elem ''button''
          [(''onClick'', FunV ''handlePlayPause''),
           (''className'',
            StrV ''p-2 rounded-full bg-gray-100 hover:bg-blue-100 transition-colors duration-200 group-hover:shadow-sm'')]
          [if playing then Elem ''Pause'' [(''className'', StrV ''w-4 h-4 text-blue-600'')] []
           else Elem ''Play'' [(''className'', StrV ''w-4 h-4 text-blue-600'')] []],
        Elem ''div''
          [(''className'',
            StrV ''text-sm text-gray-500 group-hover:text-blue-600 transition-colors duration-200'')]
          (case label of None \<Rightarrow> [] | Some l \<Rightarrow> [Text l])]"

text \<open>
  One render of \<^verbatim>\<open>AudioPlayer\<close> at the cursor. For a mounted instance \<^verbatim>\<open>useState\<close>
  gives the stored value and \<^verbatim>\<open>useRef\<close> keeps its element, so the element built by
  \<^verbatim>\<open>new Audio(src)\<close> is left in the store with no reference to it. For a new instance
  this is the first render.
\<close>

definition AudioPlayer :: "string set \<Rightarrow> string \<times> string option \<Rightarrow> rstate \<Rightarrow> elem \<times> rstate" where
  "AudioPlayer ok pr st =
     (let k = cursor st; w = page st in
      if k < length (players w)
      then (AudioPlayer_view (snd pr) (isPlaying (players w ! k)),
            st\<lparr>cursor := Suc k, page := w\<lparr>heap := snd (new_Audio ok (fst pr) (heap w))\<rparr>\<rparr>)
      else (AudioPlayer_view (snd pr) False,
            st\<lparr>cursor := Suc k, page := AudioPlayer_mount ok pr w\<rparr>))"

text \<open>Rendering a tree renders its \<^verbatim>\<open>AudioPlayer\<close> occurrences in document order.\<close>

fun render_elem :: "string set \<Rightarrow> elem \<Rightarrow> rstate \<Rightarrow> elem \<times> rstate"
  and render_elems :: "string set \<Rightarrow> elem list \<Rightarrow> rstate \<Rightarrow> elem list \<times> rstate" where
  "render_elem ok (Text s) st = (Text s, st)"
| "render_elem ok (Num n) st = (Num n, st)"
| "render_elem ok (Elem t ps cs) st =
     (case render_elems ok cs st of (cs', st') \<Rightarrow> (Elem t ps cs', st'))"
| "render_elem ok (AudioPlayerEl s l) st = AudioPlayer ok (s, l) st"
| "render_elems ok [] st = ([], st)"
| "render_elems ok (c # cs) st =
     (case render_elem ok c st of (c', st1) \<Rightarrow>
        (case render_elems ok cs st1 of (cs', st2) \<Rightarrow> (c' # cs', st2)))"

text \<open>
  The row callback of \<^verbatim>\<open>TTSSection\<close> called with the row object at address \<open>ra\<close> and
  the index \<open>idx\<close>, and the rendering of what it returns. Reading a field of a missing
  object would throw a \<^verbatim>\<open>TypeError\<close>.
\<close>

definition render_row :: "string set \<Rightarrow> nat \<Rightarrow> nat \<Rightarrow> rstate \<Rightarrow> err + elem \<times> rstate" where
  "render_row ok idx ra st =
     (if ra < length (rows st)
      then Inr (render_elem ok (TTSSection_row idx (rows st ! ra)) st)
      else Inl TypeError)"

text \<open>The state a control instance contributes to a render: Playing or not; no instance yet counts as not.\<close>

definition playing_at :: "world \<Rightarrow> nat \<Rightarrow> bool" where
  "playing_at w k \<longleftrightarrow> k < length (players w) \<and> isPlaying (players w ! k)"

text \<open>A render state on the example page with its second control Playing, and one that holds the same row at another address.\<close>

definition example_state :: rstate where
  "example_state = \<lparr>cursor = 0, rows = [example_row], page = example_playing\<rparr>"

definition example_state2 :: rstate where
  "example_state2 = \<lparr>cursor = 0, rows = [unset_row, example_row], page = example_playing\<rparr>"

section \<open>Facts about the renderers\<close>

declare show_nat.simps [simp del]

lemma controls_ColumnHeader: "controls (ColumnHeader t d) = []"
  by (simp add: ColumnHeader_def)

lemma numbers_ColumnHeader: "numbers (ColumnHeader t d) = []"
  by (simp add: ColumnHeader_def)

lemma tagged_ColumnHeader:
  "t \<notin> {''Tooltip'', ''TooltipTrigger'', ''Info'', ''TooltipContent'', ''p''} \<Longrightarrow>
   tagged t (ColumnHeader a d) = []"
  by (auto simp add: ColumnHeader_def)

lemma controls_head: "controls TTSSection_head = []"
  by (simp add: TTSSection_head_def controls_ColumnHeader)

lemma numbers_head: "numbers TTSSection_head = []"
  by (simp add: TTSSection_head_def numbers_ColumnHeader)

lemma body_head: "tagged ''TableBody'' TTSSection_head = []"
  by (simp add: TTSSection_head_def tagged_ColumnHeader)

lemma card_head: "tagged ''CardContent'' TTSSection_head = []"
  by (simp add: TTSSection_head_def tagged_ColumnHeader)

lemma controls_row:
  "controls (TTSSection_row i r) =
     [(originalSpeech r, Some ''Original'')] @
     (if generatedSpeech r = [] then [] else [(generatedSpeech r, Some ''Generated'')]) @
     [(generatedSpeechNew r, Some ''New Generated'')]"
  by (simp add: TTSSection_row_def js_and_def truthy_def)

lemma numbers_row: "numbers (TTSSection_row i r) = []"
  by (simp add: TTSSection_row_def js_and_def truthy_def)

lemma body_row: "tagged ''TableBody'' (TTSSection_row i r) = []"
  by (simp add: TTSSection_row_def js_and_def truthy_def)

lemma card_row: "tagged ''CardContent'' (TTSSection_row i r) = []"
  by (simp add: TTSSection_row_def js_and_def truthy_def)

lemma concat_map_nil: "(\<And>x. x \<in> set xs \<Longrightarrow> f x = []) \<Longrightarrow> concat (map f xs) = []"
  by (induction xs) auto

lemma rows_none:
  "(\<And>i r. f (g i r) = []) \<Longrightarrow>
   concat (map f (map (\<lambda>(idx, row). g idx row) (enumerate n data))) = []"
  by (rule concat_map_nil) auto

lemma numbers_section: "numbers (TTSSection title data) = [length data]"
  by (simp add: TTSSection_def TTSSection_with_def numbers_head rows_none [where f = numbers, OF numbers_row] del: map_map)

lemma body_rows_section:
  "body_rows (TTSSection title data) = map (\<lambda>(idx, row). TTSSection_row idx row) (enumerate 0 data)"
  by (simp add: body_rows_def TTSSection_def TTSSection_with_def body_head
      rows_none [where f = "tagged ''TableBody''", OF body_row] del: map_map)

lemma card_section: "tagged ''CardContent'' (TTSSection title data) = []"
  by (simp add: TTSSection_def TTSSection_with_def card_head
      rows_none [where f = "tagged ''CardContent''", OF card_row] del: map_map)

lemma header_text:
  "textContent (hd (kids (TTSSection title data))) = title @ ''('' @ show_nat (length data) @ '' samples)''"
  by (simp add: TTSSection_def TTSSection_with_def)

lemma speaker_column:
  "map (\<lambda>e. textContent (hd (kids e))) (map (\<lambda>(idx, row). TTSSection_row idx row) (enumerate n data)) = map speakerId data"
  by (induction data arbitrary: n) (simp_all add: TTSSection_row_def)

lemma model_sections: "concat (map kids (tagged ''CardContent'' (ModelSection t tr te))) =
   [TTSSection ''Train (seen data)'' tr, TTSSection ''Test (unseen data)'' te]"
  by (simp add: ModelSection_def card_section)

lemma model_numbers: "numbers (ModelSection t tr te) = [length tr, length te]"
  by (simp add: ModelSection_def numbers_section)


lemma body_App_row: "tagged ''TableBody'' (App_TTSSection_row i r) = []"
  by (simp add: App_TTSSection_row_def)

lemma body_rows_App_section:
  "body_rows (App_TTSSection title data) =
     map (\<lambda>(idx, row). App_TTSSection_row idx row) (enumerate 0 data)"
  by (simp add: body_rows_def App_TTSSection_def TTSSection_with_def body_head
      rows_none [where f = "tagged ''TableBody''", OF body_App_row] del: map_map)

lemma body_rows_model:
  "body_rows (ModelSection t tr te) =
     body_rows (TTSSection ''Train (seen data)'' tr) @ body_rows (TTSSection ''Test (unseen data)'' te)"
  by (simp add: body_rows_def ModelSection_def)

lemma controls_section:
  "controls (TTSSection title data) = concat (map (controls \<circ> (\<lambda>(idx, row). TTSSection_row idx row)) (enumerate 0 data))"
  by (simp add: TTSSection_def TTSSection_with_def controls_head)

lemma controls_example:
  "controls example_tree =
     [(''a.wav'', Some ''Original''), (''b.wav'', Some ''Generated''),
      (''c.wav'', Some ''New Generated'')]"
  by (simp add: example_tree_def ModelSection_def controls_section controls_row example_row_def)

lemma guarded_generated_cell:
  "kids (TTSSection_row idx row) ! 3 =
     Elem ''TableCell'' []
       [if generatedSpeech row = [] then Text []
        else AudioPlayerEl (generatedSpeech row) (Some ''Generated'')] \<and>
   (generatedSpeech row = [] \<longrightarrow>
      controls (kids (TTSSection_row idx row) ! 3) = [] \<and>
      textContent (kids (TTSSection_row idx row) ! 3) = []) \<and>
   (generatedSpeech row \<noteq> [] \<longrightarrow>
      controls (kids (TTSSection_row idx row) ! 3) = [(generatedSpeech row, Some ''Generated'')])"
  by (simp add: TTSSection_row_def js_and_def truthy_def)

section \<open>Facts about the audio controls\<close>

lemma wf_empty: "wf empty_world"
  by (simp add: wf_def empty_world_def)

lemma players_AudioPlayer_mount:
  "players (AudioPlayer_mount ok pr w) =
     players w @ [\<lparr>props = pr, isPlaying = False, audioRef = length (heap w)\<rparr>]"
  by (simp add: AudioPlayer_mount_def new_Audio_def)

lemma heap_AudioPlayer_mount:
  "heap (AudioPlayer_mount ok pr w) =
     heap w @ [\<lparr>src = fst pr, playable = (fst pr \<in> ok), calls = [], onended = None\<rparr>]"
  by (simp add: AudioPlayer_mount_def new_Audio_def)

lemma wf_AudioPlayer_mount:
  assumes "wf w"
  shows "wf (AudioPlayer_mount ok pr w)"
proof -
  let ?w = "AudioPlayer_mount ok pr w"
  have refs: "\<forall>i < length (players w). audioRef (players w ! i) < length (heap w)"
    using assms by (simp add: wf_def)
  have a: "\<forall>i < length (players ?w). audioRef (players ?w ! i) < length (heap ?w)"
    using refs
    by (auto simp add: players_AudioPlayer_mount heap_AudioPlayer_mount nth_append less_Suc_eq)
  have "\<forall>r \<in> set (map audioRef (players w)). r < length (heap w)"
    using refs by (auto simp add: in_set_conv_nth)
  then have b: "distinct (map audioRef (players ?w))"
    using assms by (auto simp add: wf_def players_AudioPlayer_mount)
  have c: "\<forall>a < length (heap ?w). \<forall>i. onended (heap ?w ! a) = Some (SetIsPlayingFalse i) \<longrightarrow>
        i < length (players ?w) \<and> audioRef (players ?w ! i) = a"
    using assms
    by (auto simp add: wf_def players_AudioPlayer_mount heap_AudioPlayer_mount nth_append less_Suc_eq)
  have d: "\<forall>i < length (players ?w). isPlaying (players ?w ! i) \<longrightarrow>
        onended (heap ?w ! audioRef (players ?w ! i)) = Some (SetIsPlayingFalse i)"
    using assms refs
    by (auto simp add: wf_def players_AudioPlayer_mount heap_AudioPlayer_mount nth_append less_Suc_eq)
  have e: "\<forall>i < length (players ?w). src (heap ?w ! audioRef (players ?w ! i)) = fst (props (players ?w ! i))"
    using assms refs
    by (auto simp add: wf_def players_AudioPlayer_mount heap_AudioPlayer_mount nth_append less_Suc_eq)
  show ?thesis
    unfolding wf_def using a b c d e by blast
qed

lemma wf_fold_mount: "wf w \<Longrightarrow> wf (fold (AudioPlayer_mount ok) prs w)"
  by (induction prs arbitrary: w) (simp_all add: wf_AudioPlayer_mount)

lemma wf_mount: "wf w \<Longrightarrow> wf (mount ok e w)"
  by (simp add: mount_def wf_fold_mount)

lemma refs_inj:
  "wf w \<Longrightarrow> i < length (players w) \<Longrightarrow> j < length (players w) \<Longrightarrow>
   audioRef (players w ! i) = audioRef (players w ! j) \<Longrightarrow> i = j"
  by (simp add: wf_def distinct_conv_nth) (metis)

lemma handlePlayPause_eq:
  assumes "wf w" "i < length (players w)"
  shows "handlePlayPause i w =
     Inr \<lparr>players = (players w)[i := (players w ! i)\<lparr>isPlaying := \<not> isPlaying (players w ! i)\<rparr>],
          heap = (heap w)[audioRef (players w ! i) :=
            (heap w ! audioRef (players w ! i))
              \<lparr>calls := calls (heap w ! audioRef (players w ! i)) @
                 [if isPlaying (players w ! i) then PauseReq else PlayReq],
               onended := Some (SetIsPlayingFalse i)\<rparr>]\<rparr>"
  using assms
  by (simp add: wf_def handlePlayPause_def deref_def Let_def media_play_def media_pause_def)

lemma nth_update_ref:
  "audioRef (ps[i := (ps ! i)\<lparr>isPlaying := b\<rparr>] ! j) = audioRef (ps ! j)"
  by (induction ps arbitrary: i j) (auto simp add: nth_Cons split: nat.splits)

lemma refs_update:
  "map audioRef (ps[i := (ps ! i)\<lparr>isPlaying := b\<rparr>]) = map audioRef ps"
  by (simp add: list_eq_iff_nth_eq nth_update_ref)

lemma wf_ref: "wf w \<Longrightarrow> i < length (players w) \<Longrightarrow> audioRef (players w ! i) < length (heap w)"
  by (simp add: wf_def)

lemma wf_cb:
  "wf w \<Longrightarrow> a < length (heap w) \<Longrightarrow> onended (heap w ! a) = Some (SetIsPlayingFalse i) \<Longrightarrow>
   i < length (players w) \<and> audioRef (players w ! i) = a"
  by (simp add: wf_def)

lemma wf_playing:
  "wf w \<Longrightarrow> i < length (players w) \<Longrightarrow> isPlaying (players w ! i) \<Longrightarrow>
   onended (heap w ! audioRef (players w ! i)) = Some (SetIsPlayingFalse i)"
  by (simp add: wf_def)

lemma wf_src:
  "wf w \<Longrightarrow> i < length (players w) \<Longrightarrow>
   src (heap w ! audioRef (players w ! i)) = fst (props (players w ! i))"
  by (simp add: wf_def)

lemma wf_distinct: "wf w \<Longrightarrow> distinct (map audioRef (players w))"
  by (simp add: wf_def)

lemma wf_step:
  assumes "wf w" and "i < length (players w)"
    and ps: "ps = (players w)[i := (players w ! i)\<lparr>isPlaying := b\<rparr>]"
    and h: "h = (if upd then (heap w)[audioRef (players w ! i) :=
                  (heap w ! audioRef (players w ! i))\<lparr>calls := cs, onended := Some (SetIsPlayingFalse i)\<rparr>]
                 else heap w)"
    and b: "\<not> upd \<Longrightarrow> b \<Longrightarrow> isPlaying (players w ! i)"
  shows "wf \<lparr>players = ps, heap = h\<rparr>"
proof -
  let ?a = "audioRef (players w ! i)"
  have len: "length ps = length (players w)" "length h = length (heap w)"
    using ps h by auto
  have ref: "\<And>j. audioRef (ps ! j) = audioRef (players w ! j)"
    by (simp add: ps nth_update_ref)
  have playing: "\<And>j. j \<noteq> i \<Longrightarrow> isPlaying (ps ! j) = isPlaying (players w ! j)"
    by (simp add: ps)
  have playing_i: "isPlaying (ps ! i) = b"
    using assms(2) by (simp add: ps)
  have inj: "\<And>j. j < length (players w) \<Longrightarrow> audioRef (players w ! j) = ?a \<Longrightarrow> j = i"
    using refs_inj [OF assms(1) _ assms(2)] by blast
  have A: "\<forall>j < length ps. audioRef (ps ! j) < length h"
    using wf_ref [OF assms(1)] by (simp add: len ref)
  have B: "distinct (map audioRef ps)"
    using wf_distinct [OF assms(1)] by (simp add: ps refs_update)
  have C: "\<forall>a < length h. \<forall>j. onended (h ! a) = Some (SetIsPlayingFalse j) \<longrightarrow>
        j < length ps \<and> audioRef (ps ! j) = a"
  proof (intro allI impI)
    fix a j
    assume a: "a < length h" and cb: "onended (h ! a) = Some (SetIsPlayingFalse j)"
    show "j < length ps \<and> audioRef (ps ! j) = a"
    proof (cases "\<not> upd \<or> a \<noteq> ?a")
      case True
      then have "h ! a = heap w ! a"
        using h by auto
      then show ?thesis
        using wf_cb [OF assms(1), of a j] a cb by (simp add: len ref)
    next
      case False
      then have "h ! a = (heap w ! ?a)\<lparr>calls := cs, onended := Some (SetIsPlayingFalse i)\<rparr>"
        using h a by (auto simp add: len)
      then have "j = i"
        using cb by simp
      then show ?thesis
        using False assms(2) by (simp add: len ref)
    qed
  qed
  have D: "\<forall>j < length ps. isPlaying (ps ! j) \<longrightarrow>
        onended (h ! audioRef (ps ! j)) = Some (SetIsPlayingFalse j)"
  proof (intro allI impI)
    fix j
    assume j: "j < length ps" and pl: "isPlaying (ps ! j)"
    show "onended (h ! audioRef (ps ! j)) = Some (SetIsPlayingFalse j)"
    proof (cases "j = i")
      case True
      show ?thesis
      proof (cases "\<not> upd")
        case True
        then show ?thesis
          using b h pl playing_i \<open>j = i\<close> wf_playing [OF assms(1,2)] by (simp add: ref)
      next
        case False
        then show ?thesis
          using h \<open>j = i\<close> wf_ref [OF assms(1,2)] by (auto simp add: ref)
      qed
    next
      case False
      then have old: "onended (heap w ! audioRef (players w ! j)) = Some (SetIsPlayingFalse j)"
        using wf_playing [OF assms(1), of j] j pl by (simp add: len playing)
      have "audioRef (players w ! j) \<noteq> ?a"
        using inj [of j] j False by (auto simp add: len)
      then have "h ! audioRef (players w ! j) = heap w ! audioRef (players w ! j)"
        using h by auto
      then show ?thesis
        using old by (simp add: ref)
    qed
  qed
  have E: "\<forall>j < length ps. src (h ! audioRef (ps ! j)) = fst (props (ps ! j))"
  proof (intro allI impI)
    fix j
    assume j: "j < length ps"
    have "props (ps ! j) = props (players w ! j)"
      using j by (cases "j = i") (simp_all add: ps)
    moreover have "src (h ! audioRef (players w ! j)) = src (heap w ! audioRef (players w ! j))"
      using h wf_ref [OF assms(1), of j] j
      by (cases "audioRef (players w ! j) = ?a") (simp_all add: len)
    ultimately show "src (h ! audioRef (ps ! j)) = fst (props (ps ! j))"
      using wf_src [OF assms(1), of j] j by (simp add: len ref)
  qed
  show ?thesis
    unfolding wf_def using A B C D E by simp
qed

lemma wf_handlePlayPause:
  assumes "wf w" "i < length (players w)" "handlePlayPause i w = Inr w'"
  shows "wf w'"
proof -
  have "wf \<lparr>players = (players w)[i := (players w ! i)\<lparr>isPlaying := \<not> isPlaying (players w ! i)\<rparr>],
          heap = (heap w)[audioRef (players w ! i) := (heap w ! audioRef (players w ! i))
              \<lparr>calls := calls (heap w ! audioRef (players w ! i)) @
                 [if isPlaying (players w ! i) then PauseReq else PlayReq],
               onended := Some (SetIsPlayingFalse i)\<rparr>]\<rparr>"
    by (rule wf_step [OF assms(1,2) refl, where upd = True]) simp_all
  then show ?thesis
    using assms(3) handlePlayPause_eq [OF assms(1,2)] by simp
qed

lemma wf_run_handler:
  assumes "wf w" and "a < length (heap w)" and "onended (heap w ! a) = Some f"
  shows "wf (run_handler f w)"
proof (cases f)
  case (SetIsPlayingFalse i)
  have i: "i < length (players w)"
    using wf_cb [OF assms(1,2)] assms(3) SetIsPlayingFalse by simp
  have "wf \<lparr>players = (players w)[i := (players w ! i)\<lparr>isPlaying := False\<rparr>], heap = heap w\<rparr>"
    by (rule wf_step [OF assms(1) i refl, where upd = False]) simp_all
  moreover have "run_handler f w =
      \<lparr>players = (players w)[i := (players w ! i)\<lparr>isPlaying := False\<rparr>], heap = heap w\<rparr>"
    by (simp add: SetIsPlayingFalse)
  ultimately show ?thesis by simp
qed

lemma dispatch_total:
  assumes "wf w"
  shows "\<exists>w'. dispatch e w = Inr w' \<and> wf w'"
proof (cases e)
  case (Click i)
  show ?thesis
  proof (cases "i < length (players w)")
    case True
    then obtain w' where "handlePlayPause i w = Inr w'"
      using handlePlayPause_eq [OF assms] by blast
    then show ?thesis
      using Click True wf_handlePlayPause [OF assms True] by simp
  next
    case False
    then show ?thesis using Click assms by simp
  qed
next
  case (Ended a)
  then show ?thesis
    using assms by (auto simp add: deref_def wf_run_handler split: option.splits)
next
  case (MediaError a)
  then show ?thesis using assms by simp
qed

lemma run_total: "wf w \<Longrightarrow> \<exists>w'. run es w = Inr w' \<and> wf w'"
proof (induction es arbitrary: w)
  case Nil
  then show ?case by simp
next
  case (Cons e es)
  obtain w1 where w1: "dispatch e w = Inr w1" "wf w1"
    using dispatch_total [OF Cons.prems] by blast
  then show ?case
    using Cons.IH [OF w1(2)] by simp
qed

lemma reach_wf: "run es (mount ok e empty_world) = Inr w \<Longrightarrow> wf w"
  using run_total [OF wf_mount [OF wf_empty], of es ok e] by auto

lemma fold_mount_idle:
  "map isPlaying (players (fold (AudioPlayer_mount ok) prs w)) =
     map isPlaying (players w) @ replicate (length prs) False"
  by (induction prs arbitrary: w)
    (simp_all add: players_AudioPlayer_mount replicate_append_same)

lemma toggle_effect:
  assumes "wf w" "i < length (players w)"
  shows "\<exists>w'. handlePlayPause i w = Inr w' \<and> wf w' \<and>
     length (players w') = length (players w) \<and>
     isPlaying (players w' ! i) = (\<not> isPlaying (players w ! i)) \<and>
     audioRef (players w' ! i) = audioRef (players w ! i) \<and>
     calls (heap w' ! audioRef (players w ! i)) =
       calls (heap w ! audioRef (players w ! i)) @
         [if isPlaying (players w ! i) then PauseReq else PlayReq] \<and>
     (\<forall>j. j \<noteq> i \<longrightarrow> players w' ! j = players w ! j) \<and>
     (\<forall>a. a \<noteq> audioRef (players w ! i) \<longrightarrow> heap w' ! a = heap w ! a)"
proof -
  obtain w' where w': "handlePlayPause i w = Inr w'"
    using handlePlayPause_eq [OF assms] by blast
  have "wf w'"
    using wf_handlePlayPause [OF assms w'] .
  moreover have "audioRef (players w ! i) < length (heap w)"
    using wf_ref [OF assms] .
  ultimately show ?thesis
    using w' assms(2) handlePlayPause_eq [OF assms] by auto
qed

lemma mount_players_idle:
  "map isPlaying (players (mount ok e w)) =
     map isPlaying (players w) @ replicate (length (controls e)) False"
  by (simp add: mount_def fold_mount_idle)

lemma example_page_eq:
  "example_page =
     \<lparr>players =
        [\<lparr>props = (''a.wav'', Some ''Original''), isPlaying = False, audioRef = 0\<rparr>,
         \<lparr>props = (''b.wav'', Some ''Generated''), isPlaying = False, audioRef = 1\<rparr>,
         \<lparr>props = (''c.wav'', Some ''New Generated''), isPlaying = False, audioRef = 2\<rparr>],
      heap =
        [\<lparr>src = ''a.wav'', playable = False, calls = [], onended = None\<rparr>,
         \<lparr>src = ''b.wav'', playable = True, calls = [], onended = None\<rparr>,
         \<lparr>src = ''c.wav'', playable = True, calls = [], onended = None\<rparr>]\<rparr>"
  by (simp add: example_page_def mount_def controls_example AudioPlayer_mount_def
      new_Audio_def empty_world_def)

lemma example_click0: "handlePlayPause 0 example_page = Inr example_broken"
  by (simp add: example_page_eq example_broken_def handlePlayPause_def deref_def
      media_play_def Let_def)

lemma example_click1: "handlePlayPause 1 example_page = Inr example_playing"
  by (simp add: example_page_eq example_playing_def handlePlayPause_def deref_def
      media_play_def Let_def)

section \<open>Facts about rendering with state\<close>

lemma AudioPlayer_tree:
  "fst (AudioPlayer ok pr st) = AudioPlayer_view (snd pr) (playing_at (page st) (cursor st))"
  by (simp add: AudioPlayer_def playing_at_def Let_def)

lemma AudioPlayer_cursor: "cursor (snd (AudioPlayer ok pr st)) = Suc (cursor st)"
  by (simp add: AudioPlayer_def Let_def)

lemma AudioPlayer_rows: "rows (snd (AudioPlayer ok pr st)) = rows st"
  by (simp add: AudioPlayer_def Let_def)

lemma AudioPlayer_players:
  "players (page (snd (AudioPlayer ok pr st))) =
     players (page st) @
       (if cursor st < length (players (page st)) then []
        else [\<lparr>props = pr, isPlaying = False, audioRef = length (heap (page st))\<rparr>])"
  by (simp add: AudioPlayer_def Let_def players_AudioPlayer_mount)

lemma AudioPlayer_heap:
  "heap (page (snd (AudioPlayer ok pr st))) =
     heap (page st) @ [\<lparr>src = fst pr, playable = (fst pr \<in> ok), calls = [], onended = None\<rparr>]"
  by (simp add: AudioPlayer_def Let_def heap_AudioPlayer_mount new_Audio_def)

lemma AudioPlayer_playing_at:
  "playing_at (page (snd (AudioPlayer ok pr st))) j = playing_at (page st) j"
  by (auto simp add: playing_at_def AudioPlayer_players nth_append less_Suc_eq)

lemmas AudioPlayer_facts =
  AudioPlayer_tree AudioPlayer_cursor AudioPlayer_rows AudioPlayer_players AudioPlayer_heap
  AudioPlayer_playing_at

lemma render_row_tree:
  "fst (render_elem ok (TTSSection_row idx row) st) =
     Elem ''TableRow''
       [(''key'', NumV idx),
        (''className'', StrV ''hover:bg-gray-50 transition-colors duration-200'')]
       [Elem ''TableCell'' [(''className'', StrV ''w-32 font-medium text-left'')]
          [Text (speakerId row)],
        Elem ''TableCell'' [(''className'', StrV ''max-w-64'')]
          [Elem ''div'' [(''className'', StrV ''text-sm text-gray-600 text-left'')]
             [Text (originalText row)]],
        Elem ''TableCell'' []
          [AudioPlayer_view (Some ''Original'') (playing_at (page st) (cursor st))],
        Elem ''TableCell'' []
          [if generatedSpeech row = [] then Text []
           else AudioPlayer_view (Some ''Generated'') (playing_at (page st) (cursor st + 1))],
        Elem ''TableCell'' [(''className'', StrV ''max-w-64'')]
          [Elem ''div'' [(''className'', StrV ''text-sm text-gray-600 text-left'')]
             [Text (generateText row)]],
        Elem ''TableCell'' []
          [AudioPlayer_view (Some ''New Generated'')
             (playing_at (page st)
                (cursor st + (if generatedSpeech row = [] then 1 else 2)))]]"
  by (simp add: TTSSection_row_def js_and_def truthy_def split_def AudioPlayer_facts)

lemma render_row_state:
  "rows (snd (render_elem ok (TTSSection_row idx row) st)) = rows st \<and>
   cursor (snd (render_elem ok (TTSSection_row idx row) st)) =
     cursor st + length (controls (TTSSection_row idx row)) \<and>
   (\<forall>j. playing_at (page (snd (render_elem ok (TTSSection_row idx row) st))) j =
      playing_at (page st) j) \<and>
   take (length (players (page st)))
     (players (page (snd (render_elem ok (TTSSection_row idx row) st)))) = players (page st) \<and>
   take (length (heap (page st)))
     (heap (page (snd (render_elem ok (TTSSection_row idx row) st)))) = heap (page st)"
  by (simp add: TTSSection_row_def js_and_def truthy_def split_def AudioPlayer_facts)

section \<open>The claims\<close>

text \<open>
  C1. For a row whose \<^verbatim>\<open>generatedSpeech\<close> is unset, the cell of that column holds no
  audio control and renders empty; for a row with it set, the cell holds exactly one
  control bound to that reference. The \<^verbatim>\<open>TTSSection\<close> of \<^verbatim>\<open>src/App.tsx\<close> renders
  the control with no guard: on the row \<open>unset_row\<close>, whose \<^verbatim>\<open>generatedSpeech\<close> is the
  empty string, its fourth cell holds one control bound to the empty locator. The guarded
  \<^verbatim>\<open>TTSSection\<close> renders no control on the same row (and \<open>guarded_generated_cell\<close>
  shows that it does what C1 says on every row).
\<close>

theorem App_unset_clip_control:
  "generatedSpeech unset_row = [] \<and>
   body_rows (App_TTSSection ''Train (seen data)'' [unset_row]) = [App_TTSSection_row 0 unset_row] \<and>
   controls (kids (App_TTSSection_row 0 unset_row) ! 3) = [([], Some ''Generated'')] \<and>
   body_rows (TTSSection ''Train (seen data)'' [unset_row]) = [TTSSection_row 0 unset_row] \<and>
   controls (kids (TTSSection_row 0 unset_row) ! 3) = []"
  by (simp add: body_rows_App_section body_rows_section unset_row_def App_TTSSection_row_def
      TTSSection_row_def js_and_def truthy_def)

text \<open>
  C2, as amended. When the toggle is invoked on an Idle control whose clip cannot be
  played, the toggle completes, the promise of \<^verbatim>\<open>play()\<close> is rejected and dropped,
  and the control shows Playing; a media error of the element then runs no code of the
  page, so the control stays Playing. No other control and no other control's element is
  changed.
\<close>

theorem broken_clip_toggle:
  assumes "run evs (mount ok e empty_world) = Inr w"
    and "i < length (players w)"
    and "\<not> isPlaying (players w ! i)"
    and "\<not> playable (heap w ! audioRef (players w ! i))"
  shows "\<exists>w'. handlePlayPause i w = Inr w' \<and>
     fst (media_play (heap w ! audioRef (players w ! i))) = Rejected \<and>
     isPlaying (players w' ! i) \<and>
     dispatch (MediaError (audioRef (players w ! i))) w' = Inr w' \<and>
     (\<forall>j < length (players w). j \<noteq> i \<longrightarrow>
        players w' ! j = players w ! j \<and>
        heap w' ! audioRef (players w ! j) = heap w ! audioRef (players w ! j))"
proof -
  have wf: "wf w"
    using reach_wf [OF assms(1)] .
  have other: "\<And>j. j < length (players w) \<Longrightarrow> j \<noteq> i \<Longrightarrow>
      audioRef (players w ! j) \<noteq> audioRef (players w ! i)"
    using refs_inj [OF wf _ assms(2)] by blast
  obtain w' where w': "handlePlayPause i w = Inr w'"
    "isPlaying (players w' ! i) = (\<not> isPlaying (players w ! i))"
    "\<forall>j. j \<noteq> i \<longrightarrow> players w' ! j = players w ! j"
    "\<forall>a. a \<noteq> audioRef (players w ! i) \<longrightarrow> heap w' ! a = heap w ! a"
    using toggle_effect [OF wf assms(2)] by blast
  show ?thesis
    using w' other assms(3,4) by (simp add: media_play_def)
qed

theorem broken_clip_toggle_witness:
  "run [] (mount {''b.wav'', ''c.wav''} example_tree empty_world) = Inr example_page \<and>
   0 < length (players example_page) \<and> \<not> isPlaying (players example_page ! 0) \<and>
   \<not> playable (heap example_page ! audioRef (players example_page ! 0)) \<and>
   (\<exists>w'. handlePlayPause 0 example_page = Inr w' \<and> isPlaying (players w' ! 0) \<and>
      dispatch (MediaError 0) w' = Inr w' \<and>
      players w' ! 1 = players example_page ! 1 \<and> heap w' ! 1 = heap example_page ! 1)"
proof -
  have r: "run [] (mount {''b.wav'', ''c.wav''} example_tree empty_world) = Inr example_page"
    by (simp add: example_page_def)
  have l: "0 < length (players example_page)"
    by (simp add: example_page_eq)
  have p: "\<not> isPlaying (players example_page ! 0)"
    by (simp add: example_page_eq)
  have b: "\<not> playable (heap example_page ! audioRef (players example_page ! 0))"
    by (simp add: example_page_eq)
  have a: "audioRef (players example_page ! 0) = 0" "audioRef (players example_page ! 1) = 1"
    "length (players example_page) = 3"
    by (simp_all add: example_page_eq)
  obtain w' where w': "handlePlayPause 0 example_page = Inr w'" "isPlaying (players w' ! 0)"
    "dispatch (MediaError 0) w' = Inr w'"
    and others: "\<forall>j < length (players example_page). j \<noteq> 0 \<longrightarrow>
        players w' ! j = players example_page ! j \<and>
        heap w' ! audioRef (players example_page ! j) =
          heap example_page ! audioRef (players example_page ! j)"
    using broken_clip_toggle [OF r l p b] a(1) by auto
  have "players w' ! 1 = players example_page ! 1 \<and> heap w' ! 1 = heap example_page ! 1"
    using others [rule_format, of 1] a(2,3) by simp
  then show ?thesis
    using r l p b w' by blast
qed

text \<open>
  C2 as stated (the control reverts to Idle when its clip fails to play) does not hold:
  on the example page the first control is Idle and its clip a.wav is not playable; after
  a click and the element's media error the control shows Playing.
\<close>

theorem broken_clip_stays_playing:
  "\<not> isPlaying (players example_page ! 0) \<and>
   audioRef (players example_page ! 0) = 0 \<and>
   \<not> playable (heap example_page ! 0) \<and>
   run [Click 0, MediaError 0] example_page = Inr example_broken \<and>
   isPlaying (players example_broken ! 0)"
  using example_click0
  by (simp add: example_page_eq example_broken_def)

text \<open>
  C3. On every page reached from a mounted tree by any events, a toggle of an Idle
  control makes it Playing and sends a play request to its element; a second toggle
  makes it Idle again and sends a pause request. The element is the one built from the
  control's \<^verbatim>\<open>src\<close> prop, and every control of a freshly mounted page is Idle.
\<close>

theorem toggle_symmetry:
  assumes "run evs (mount ok e empty_world) = Inr w"
    and "i < length (players w)"
    and "\<not> isPlaying (players w ! i)"
  shows "\<exists>w1 w2.
     handlePlayPause i w = Inr w1 \<and> isPlaying (players w1 ! i) \<and>
     calls (heap w1 ! audioRef (players w ! i)) =
       calls (heap w ! audioRef (players w ! i)) @ [PlayReq] \<and>
     handlePlayPause i w1 = Inr w2 \<and> \<not> isPlaying (players w2 ! i) \<and>
     calls (heap w2 ! audioRef (players w ! i)) =
       calls (heap w ! audioRef (players w ! i)) @ [PlayReq, PauseReq] \<and>
     src (heap w ! audioRef (players w ! i)) = fst (props (players w ! i)) \<and>
     map isPlaying (players (mount ok e empty_world)) = replicate (length (controls e)) False"
proof -
  have wf: "wf w"
    using reach_wf [OF assms(1)] .
  obtain w1 where w1: "handlePlayPause i w = Inr w1" "wf w1"
    "length (players w1) = length (players w)"
    "isPlaying (players w1 ! i) = (\<not> isPlaying (players w ! i))"
    "audioRef (players w1 ! i) = audioRef (players w ! i)"
    "calls (heap w1 ! audioRef (players w ! i)) =
       calls (heap w ! audioRef (players w ! i)) @
         [if isPlaying (players w ! i) then PauseReq else PlayReq]"
    using toggle_effect [OF wf assms(2)] by blast
  have i1: "i < length (players w1)"
    using assms(2) w1(3) by simp
  obtain w2 where w2: "handlePlayPause i w1 = Inr w2"
    "isPlaying (players w2 ! i) = (\<not> isPlaying (players w1 ! i))"
    "calls (heap w2 ! audioRef (players w1 ! i)) =
       calls (heap w1 ! audioRef (players w1 ! i)) @
         [if isPlaying (players w1 ! i) then PauseReq else PlayReq]"
    using toggle_effect [OF w1(2) i1] by blast
  have "map isPlaying (players (mount ok e empty_world)) = replicate (length (controls e)) False"
    by (simp add: mount_players_idle empty_world_def)
  then show ?thesis
    using w1 w2 assms(3) wf_src [OF wf assms(2)] by simp
qed

theorem toggle_symmetry_witness:
  "run [] (mount {''b.wav'', ''c.wav''} example_tree empty_world) = Inr example_page \<and>
   1 < length (players example_page) \<and> \<not> isPlaying (players example_page ! 1) \<and>
   (\<exists>w1 w2.
     handlePlayPause 1 example_page = Inr w1 \<and> isPlaying (players w1 ! 1) \<and>
     calls (heap w1 ! 1) = [PlayReq] \<and>
     handlePlayPause 1 w1 = Inr w2 \<and> \<not> isPlaying (players w2 ! 1) \<and>
     calls (heap w2 ! 1) = [PlayReq, PauseReq])"
proof -
  have r: "run [] (mount {''b.wav'', ''c.wav''} example_tree empty_world) = Inr example_page"
    by (simp add: example_page_def)
  have l: "1 < length (players example_page)"
    by (simp add: example_page_eq)
  have p: "\<not> isPlaying (players example_page ! 1)"
    by (simp add: example_page_eq)
  have "audioRef (players example_page ! 1) = 1" "calls (heap example_page ! 1) = []"
    by (simp_all add: example_page_eq)
  then show ?thesis
    using r l p toggle_symmetry [OF r l p] by auto
qed

text \<open>
  C4. On every reachable page, when the element of a control that shows Playing reaches
  the end of its stream, the control becomes Idle, with no click involved. (The callback
  is installed by the first toggle, and a control cannot show Playing before that.)
\<close>

theorem ended_resets:
  assumes "run evs (mount ok e empty_world) = Inr w"
    and "i < length (players w)"
    and "isPlaying (players w ! i)"
  shows "\<exists>w'. dispatch (Ended (audioRef (players w ! i))) w = Inr w' \<and>
     \<not> isPlaying (players w' ! i) \<and> heap w' = heap w \<and>
     length (players w') = length (players w)"
proof -
  have wf: "wf w"
    using reach_wf [OF assms(1)] .
  have "audioRef (players w ! i) < length (heap w)"
    using wf_ref [OF wf assms(2)] .
  moreover have "onended (heap w ! audioRef (players w ! i)) = Some (SetIsPlayingFalse i)"
    using wf_playing [OF wf assms(2,3)] .
  ultimately show ?thesis
    using assms(2) by (simp add: deref_def)
qed

theorem ended_resets_witness:
  "run [Click 1] (mount {''b.wav'', ''c.wav''} example_tree empty_world) = Inr example_playing \<and>
   1 < length (players example_playing) \<and> isPlaying (players example_playing ! 1) \<and>
   (\<exists>w'. dispatch (Ended 1) example_playing = Inr w' \<and> \<not> isPlaying (players w' ! 1))"
proof -
  have r: "run [Click 1] (mount {''b.wav'', ''c.wav''} example_tree empty_world) = Inr example_playing"
    using example_click1 by (simp add: example_page_def [symmetric] example_page_eq)
  have l: "1 < length (players example_playing)"
    by (simp add: example_playing_def)
  have p: "isPlaying (players example_playing ! 1)"
    by (simp add: example_playing_def)
  have "audioRef (players example_playing ! 1) = 1"
    by (simp add: example_playing_def)
  then show ?thesis
    using r l p ended_resets [OF r l p] by auto
qed

text \<open>
  C5. On every reachable page, a toggle of control \<open>i\<close> leaves every other control
  \<open>j\<close> as it was: its state, and its audio element, which is not the element of
  \<open>i\<close>. This holds for any two distinct controls, also when both are bound to the
  same locator.
\<close>

theorem toggle_independent:
  assumes "run evs (mount ok e empty_world) = Inr w"
    and "i < length (players w)"
    and "j < length (players w)"
    and "i \<noteq> j"
  shows "\<exists>w'. handlePlayPause i w = Inr w' \<and>
     players w' ! j = players w ! j \<and>
     heap w' ! audioRef (players w ! j) = heap w ! audioRef (players w ! j) \<and>
     audioRef (players w ! j) \<noteq> audioRef (players w ! i)"
proof -
  have wf: "wf w"
    using reach_wf [OF assms(1)] .
  have "audioRef (players w ! j) \<noteq> audioRef (players w ! i)"
    using refs_inj [OF wf assms(2,3)] assms(4) by auto
  then show ?thesis
    using toggle_effect [OF wf assms(2)] assms(4) by auto
qed

theorem toggle_independent_witness:
  "run [Click 0] (mount {''b.wav'', ''c.wav''} example_tree empty_world) = Inr example_broken \<and>
   1 < length (players example_broken) \<and> 0 < length (players example_broken) \<and>
   (1::nat) \<noteq> 0 \<and>
   (\<exists>w'. handlePlayPause 1 example_broken = Inr w' \<and>
      players w' ! 0 = players example_broken ! 0 \<and> isPlaying (players w' ! 0) \<and>
      heap w' ! 0 = heap example_broken ! 0)"
proof -
  have r: "run [Click 0] (mount {''b.wav'', ''c.wav''} example_tree empty_world) = Inr example_broken"
    using example_click0 by (simp add: example_page_def [symmetric] example_page_eq)
  have l1: "1 < length (players example_broken)" and l0: "0 < length (players example_broken)"
    by (simp_all add: example_broken_def)
  have n: "(1::nat) \<noteq> 0"
    by simp
  have "audioRef (players example_broken ! 0) = 0" "isPlaying (players example_broken ! 0)"
    by (simp_all add: example_broken_def)
  then show ?thesis
    using r l1 l0 toggle_independent [OF r l1 l0 n] by auto
qed

text \<open>
  C6. A section rendered from \<open>N\<close> rows displays the number \<open>N\<close> (and no other
  number) in its header line, and its table body holds exactly the \<open>N\<close> renderings of
  the rows, each with its index as key, in the order of the input; the speaker column
  reads the speaker identifiers in input order.
\<close>

theorem section_rows:
  "numbers (TTSSection title data) = [length data] \<and>
   textContent (hd (kids (TTSSection title data))) =
     title @ ''('' @ show_nat (length data) @ '' samples)'' \<and>
   body_rows (TTSSection title data) =
     map (\<lambda>(idx, row). TTSSection_row idx row) (enumerate 0 data) \<and>
   length (body_rows (TTSSection title data)) = length data \<and>
   map (\<lambda>e. textContent (hd (kids e))) (body_rows (TTSSection title data)) =
     map speakerId data"
  by (simp add: numbers_section header_text body_rows_section speaker_column del: map_map)

text \<open>
  C7. For any title, train rows and test rows, the content of the panel is the train
  section followed by the test section, and nothing else; the panel displays both
  counts. With an empty sequence the section is still there, displaying 0 and holding no
  row.
\<close>

theorem panel_sections:
  "concat (map kids (tagged ''CardContent'' (ModelSection title trainData testData))) =
     [TTSSection ''Train (seen data)'' trainData, TTSSection ''Test (unseen data)'' testData] \<and>
   numbers (ModelSection title trainData testData) = [length trainData, length testData] \<and>
   length (body_rows (ModelSection title trainData testData)) =
     length trainData + length testData \<and>
   numbers (ModelSection title [] testData) = [0, length testData] \<and>
   numbers (ModelSection title trainData []) = [length trainData, 0] \<and>
   numbers (TTSSection title []) = [0] \<and>
   body_rows (TTSSection title []) = []"
  by (simp add: model_sections model_numbers body_rows_model body_rows_section numbers_section)

text \<open>
  C8. Rendering a row is deterministic and leaves its input alone. Two renders of the
  same row, under any indices, at any addresses of the row, on any pages and with any
  playable locators, give the same tree up to the \<^verbatim>\<open>key\<close> prop (the same tree when
  the indices agree) as long as the control instances they meet show the same state; a
  second render right after the first gives the same tree again. The render changes no
  row object, no mounted control and no audio element that was there; it renders one
  control instance per control of the row and shows the row's three text fields.
\<close>

theorem row_render_deterministic:
  assumes "ra < length (rows st)"
    and "ra' < length (rows st')"
    and "rows st' ! ra' = rows st ! ra"
    and "\<forall>j < length (controls (TTSSection_row idx (rows st ! ra))).
           playing_at (page st') (cursor st' + j) = playing_at (page st) (cursor st + j)"
  shows "\<exists>t st1 t' st1' st2.
     render_row ok idx ra st = Inr (t, st1) \<and>
     render_row ok' idx' ra' st' = Inr (t', st1') \<and>
     drop_keys t' = drop_keys t \<and>
     (idx' = idx \<longrightarrow> t' = t) \<and>
     render_row ok idx ra (st1\<lparr>cursor := cursor st\<rparr>) = Inr (t, st2) \<and>
     rows st1 = rows st \<and>
     take (length (players (page st))) (players (page st1)) = players (page st) \<and>
     take (length (heap (page st))) (heap (page st1)) = heap (page st) \<and>
     cursor st1 = cursor st + length (controls (TTSSection_row idx (rows st ! ra))) \<and>
     map textContent [kids t ! 0, kids t ! 1, kids t ! 4] =
       [speakerId (rows st ! ra), originalText (rows st ! ra), generateText (rows st ! ra)]"
proof -
  let ?row = "rows st ! ra"
  let ?R = "render_elem ok (TTSSection_row idx ?row) st"
  let ?R' = "render_elem ok' (TTSSection_row idx' ?row) st'"
  let ?again = "(snd ?R)\<lparr>cursor := cursor st\<rparr>"
  let ?R2 = "render_elem ok (TTSSection_row idx ?row) ?again"
  have first: "render_row ok idx ra st = Inr (fst ?R, snd ?R)"
    using assms(1) by (simp add: render_row_def)
  have other: "render_row ok' idx' ra' st' = Inr (fst ?R', snd ?R')"
    using assms(2,3) by (simp add: render_row_def)
  have frame: "rows (snd ?R) = rows st"
    "\<forall>j. playing_at (page (snd ?R)) j = playing_at (page st) j"
    "take (length (players (page st))) (players (page (snd ?R))) = players (page st)"
    "take (length (heap (page st))) (heap (page (snd ?R))) = heap (page st)"
    "cursor (snd ?R) = cursor st + length (controls (TTSSection_row idx ?row))"
    using render_row_state [of ok idx ?row st] by simp_all
  have shown: "map textContent [kids (fst ?R) ! 0, kids (fst ?R) ! 1, kids (fst ?R) ! 4] =
      [speakerId ?row, originalText ?row, generateText ?row]"
    by (simp add: render_row_tree)
  have again: "render_row ok idx ra ?again = Inr (fst ?R2, snd ?R2)"
    using assms(1) frame(1) by (simp add: render_row_def)
  have same_again: "fst ?R2 = fst ?R"
    using frame(2) by (simp add: render_row_tree)
  have n: "length (controls (TTSSection_row idx ?row)) =
      (if generatedSpeech ?row = [] then 2 else 3)"
    by (simp add: controls_row)
  have f0: "playing_at (page st') (cursor st') = playing_at (page st) (cursor st)"
    using assms(4) [rule_format, of 0] n by simp
  have f1: "playing_at (page st') (cursor st' + 1) = playing_at (page st) (cursor st + 1)"
    using assms(4) [rule_format, of 1] n by simp
  have f2: "generatedSpeech ?row \<noteq> [] \<Longrightarrow>
      playing_at (page st') (cursor st' + 2) = playing_at (page st) (cursor st + 2)"
    using assms(4) [rule_format, of 2] n by simp
  have trees: "drop_keys (fst ?R') = drop_keys (fst ?R)" "idx' = idx \<longrightarrow> fst ?R' = fst ?R"
    using f0 f1 f2 by (simp_all add: render_row_tree)
  have "render_row ok idx ra st = Inr (fst ?R, snd ?R) \<and>
     render_row ok' idx' ra' st' = Inr (fst ?R', snd ?R') \<and>
     drop_keys (fst ?R') = drop_keys (fst ?R) \<and>
     (idx' = idx \<longrightarrow> fst ?R' = fst ?R) \<and>
     render_row ok idx ra ((snd ?R)\<lparr>cursor := cursor st\<rparr>) = Inr (fst ?R, snd ?R2) \<and>
     rows (snd ?R) = rows st \<and>
     take (length (players (page st))) (players (page (snd ?R))) = players (page st) \<and>
     take (length (heap (page st))) (heap (page (snd ?R))) = heap (page st) \<and>
     cursor (snd ?R) = cursor st + length (controls (TTSSection_row idx ?row)) \<and>
     map textContent [kids (fst ?R) ! 0, kids (fst ?R) ! 1, kids (fst ?R) ! 4] =
       [speakerId ?row, originalText ?row, generateText ?row]"
    using first other again same_again trees frame(1,3,4,5) shown by simp
  then show ?thesis
    by (intro exI)
qed

theorem row_render_deterministic_witness:
  "0 < length (rows example_state) \<and> 1 < length (rows example_state2) \<and>
   rows example_state2 ! 1 = rows example_state ! 0 \<and>
   length (controls (TTSSection_row 0 (rows example_state ! 0))) = 3 \<and>
   map (playing_at (page example_state2)) [0, 1, 2] = [False, True, False] \<and>
   map (playing_at (page example_state)) [0, 1, 2] = [False, True, False] \<and>
   (\<exists>t st1 t' st1' st2.
     render_row {''b.wav''} 0 0 example_state = Inr (t, st1) \<and>
     render_row {} 1 1 example_state2 = Inr (t', st1') \<and>
     drop_keys t' = drop_keys t \<and>
     render_row {''b.wav''} 0 0 (st1\<lparr>cursor := cursor example_state\<rparr>) = Inr (t, st2) \<and>
     rows st1 = [example_row] \<and>
     take 3 (players (page st1)) = players example_playing \<and>
     take 3 (heap (page st1)) = heap example_playing \<and>
     cursor st1 = 3 \<and>
     map textContent [kids t ! 0, kids t ! 1, kids t ! 4] = [''s1'', ''hello'', ''new text''])"
proof -
  have a: "0 < length (rows example_state)"
    by (simp add: example_state_def)
  have b: "1 < length (rows example_state2)"
    by (simp add: example_state2_def)
  have c: "rows example_state2 ! 1 = rows example_state ! 0"
    by (simp add: example_state_def example_state2_def)
  have d: "\<forall>j < length (controls (TTSSection_row 0 (rows example_state ! 0))).
      playing_at (page example_state2) (cursor example_state2 + j) =
      playing_at (page example_state) (cursor example_state + j)"
    by (simp add: example_state_def example_state2_def)
  have e: "rows example_state = [example_row]" "page example_state = example_playing"
    "length (players example_playing) = 3" "length (heap example_playing) = 3"
    "cursor example_state = 0" "length (controls (TTSSection_row 0 example_row)) = 3"
    "speakerId example_row = ''s1''" "originalText example_row = ''hello''"
    "generateText example_row = ''new text''"
    by (simp_all add: example_state_def example_playing_def controls_row example_row_def)
  have f: "map (playing_at (page example_state2)) [0, 1, 2] = [False, True, False]"
    "map (playing_at (page example_state)) [0, 1, 2] = [False, True, False]"
    by (simp_all add: example_state_def example_state2_def example_playing_def playing_at_def)
  show ?thesis
    using a b c e f
      row_render_deterministic [OF a b c d, of "{''b.wav''}" "{}" 1]
    by auto
qed

text \<open>
  C9. The toggle never fails: every sequence of events on a mounted page runs to a page,
  and on every page so reached the toggle of every control returns a page, whatever set
  of locators is playable.
\<close>

theorem toggle_total:
  "(\<exists>w. run evs (mount ok e empty_world) = Inr w) \<and>
   (\<forall>w i. run evs (mount ok e empty_world) = Inr w \<longrightarrow> i < length (players w) \<longrightarrow>
      (\<exists>w'. handlePlayPause i w = Inr w' \<and> dispatch (Click i) w = Inr w'))"
proof -
  have "\<exists>w. run evs (mount ok e empty_world) = Inr w"
    using run_total [OF wf_mount [OF wf_empty]] by blast
  moreover have "\<exists>w'. handlePlayPause i w = Inr w' \<and> dispatch (Click i) w = Inr w'"
    if "run evs (mount ok e empty_world) = Inr w" "i < length (players w)" for w i
    using toggle_effect [OF reach_wf [OF that(1)] that(2)] that(2) by auto
  ultimately show ?thesis
    by blast
qed

theorem toggle_total_witness:
  "run [Click 0] (mount {''b.wav'', ''c.wav''} example_tree empty_world) = Inr example_broken \<and>
   0 < length (players example_broken) \<and>
   (\<exists>w'. handlePlayPause 0 example_broken = Inr w')"
proof -
  have r: "run [Click 0] (mount {''b.wav'', ''c.wav''} example_tree empty_world) = Inr example_broken"
    using example_click0 by (simp add: example_page_def [symmetric] example_page_eq)
  have l: "0 < length (players example_broken)"
    by (simp add: example_broken_def)
  show ?thesis
    using r l toggle_total [of "[Click 0]" "{''b.wav'', ''c.wav''}" example_tree] by blast
qed

text \<open>
  C10. Every rendered row has six cells. The third holds exactly one control bound to
  \<^verbatim>\<open>originalSpeech\<close> and the sixth exactly one bound to \<^verbatim>\<open>generatedSpeechNew\<close>,
  whatever the strings are, the empty string included; the fourth holds a control only
  when \<^verbatim>\<open>generatedSpeech\<close> is not empty; the other cells hold none. The third and
  sixth cells are the same in the \<^verbatim>\<open>TTSSection\<close> of \<^verbatim>\<open>src/App.tsx\<close>.
\<close>

theorem row_controls:
  "length (kids (TTSSection_row idx row)) = 6 \<and>
   controls (kids (TTSSection_row idx row) ! 0) = [] \<and>
   controls (kids (TTSSection_row idx row) ! 1) = [] \<and>
   controls (kids (TTSSection_row idx row) ! 2) = [(originalSpeech row, Some ''Original'')] \<and>
   controls (kids (TTSSection_row idx row) ! 3) =
     (if generatedSpeech row = [] then [] else [(generatedSpeech row, Some ''Generated'')]) \<and>
   controls (kids (TTSSection_row idx row) ! 4) = [] \<and>
   controls (kids (TTSSection_row idx row) ! 5) =
     [(generatedSpeechNew row, Some ''New Generated'')] \<and>
   controls (kids (App_TTSSection_row idx row) ! 2) = [(originalSpeech row, Some ''Original'')] \<and>
   controls (kids (App_TTSSection_row idx row) ! 5) =
     [(generatedSpeechNew row, Some ''New Generated'')]"
  by (simp add: TTSSection_row_def App_TTSSection_row_def js_and_def truthy_def)

end
